theory Spec2Isabelle
  imports Complex_Main "HOL-Library.AList"
begin

section \<open>JavaScript values of the escalation trend pipeline\<close>

text \<open>
  The script \<^verbatim>\<open>app_script.js\<close> works on spreadsheet cells.  A cell read by
  \<^verbatim>\<open>getValues()\<close> is a number, a boolean, a string or a \<^verbatim>\<open>Date\<close>; reading past
  the end of a row array gives \<^verbatim>\<open>undefined\<close>, and the code also tests for
  \<^verbatim>\<open>null\<close>.  Finite numbers are modelled as exact rationals (IEEE-754 rounding
  and overflow to an infinity are not modelled), \<^verbatim>\<open>NaN\<close> is explicit.  A
  \<^verbatim>\<open>Date\<close> is its time value in milliseconds since 1970-01-01T00:00Z, or
  \<open>None\<close> for an invalid date.  Strings are sequences of 8-bit code units.
\<close>

datatype jsnum = NaN | Fin rat

datatype jsval =
    JUndefined
  | JNull
  | JBool bool
  | JNum jsnum
  | JStr string
  | JDate "int option"

text \<open>
  The reply of the external classifier, after \<^verbatim>\<open>JSON.parse\<close>.  A missing field
  or \<^verbatim>\<open>null\<close> is \<open>JUndefined\<close> for a label and \<open>None\<close> for a confidence;
  the confidences are taken to be numbers, as the prompt of
  \<^verbatim>\<open>predictIssueAndCauseViaGPT_\<close> asks.
\<close>

record prediction =
  issueType :: jsval
  issueConfidence :: "jsnum option"
  rootCause :: jsval
  rootConfidence :: "jsnum option"

text \<open>
  What the script takes from its host and cannot be read off the source:
  \<^verbatim>\<open>new Date(string)\<close> (implementation-defined outside the ISO format), the
  conversion of a local time to UTC (the script's time zone), the text of
  \<^verbatim>\<open>String(date)\<close> and \<^verbatim>\<open>String(number)\<close>, and the network call inside
  \<^verbatim>\<open>predictIssueAndCauseViaGPT_\<close> (\<open>None\<close> is its \<^verbatim>\<open>null\<close>, also returned
  when the call or the parse fails).
\<close>

record host =
  dateParse :: "string \<Rightarrow> int option"
  localToUTC :: "int \<Rightarrow> int"
  dateToString :: "int \<Rightarrow> string"
  numberToString :: "rat \<Rightarrow> string"
  predict :: "jsval \<Rightarrow> jsval \<Rightarrow> string \<Rightarrow> prediction option"

text \<open>Truthiness, as used by \<^verbatim>\<open>||\<close>, \<^verbatim>\<open>&&\<close> and \<^verbatim>\<open>!\<close>.\<close>

fun truthy :: "jsval \<Rightarrow> bool" where
  "truthy JUndefined = False"
| "truthy JNull = False"
| "truthy (JBool b) = b"
| "truthy (JNum NaN) = False"
| "truthy (JNum (Fin r)) = (r \<noteq> 0)"
| "truthy (JStr s) = (s \<noteq> [])"
| "truthy (JDate d) = True"

text \<open>\<^verbatim>\<open>String(v)\<close>.\<close>

fun js_String :: "host \<Rightarrow> jsval \<Rightarrow> string" where
  "js_String h JUndefined = ''undefined''"
| "js_String h JNull = ''null''"
| "js_String h (JBool b) = (if b then ''true'' else ''false'')"
| "js_String h (JNum NaN) = ''NaN''"
| "js_String h (JNum (Fin r)) = numberToString h r"
| "js_String h (JStr s) = s"
| "js_String h (JDate None) = ''Invalid Date''"
| "js_String h (JDate (Some t)) = dateToString h t"

text \<open>
  \<^verbatim>\<open>String.prototype.trim\<close>: the white space and line terminators that exist
  among 8-bit code units (TAB, LF, VT, FF, CR, SP, NBSP).
\<close>

definition is_ws :: "char \<Rightarrow> bool" where
  "is_ws c = (of_char c \<in> {9, 10, 11, 12, 13, 32, 160 :: nat})"

definition trim :: "string \<Rightarrow> string" where
  "trim s = rev (dropWhile is_ws (rev (dropWhile is_ws s)))"

definition is_digit :: "char \<Rightarrow> bool" where
  "is_digit c = (c \<in> set ''0123456789'')"

definition digit_val :: "char \<Rightarrow> nat" where
  "digit_val c = of_char c - 48"

text \<open>\<^verbatim>\<open>parseInt(ds, 10)\<close> on a string of decimal digits.\<close>

definition parseInt10 :: "string \<Rightarrow> nat" where
  "parseInt10 ds = foldl (\<lambda>n c. 10 * n + digit_val c) 0 ds"

text \<open>
  \<^verbatim>\<open>parseFloat\<close> reads the longest prefix that is a decimal literal and gives
  \<^verbatim>\<open>NaN\<close> (here \<open>None\<close>) when there is none.  Its argument in this script
  holds digits and points only, so the sign, exponent and \<^verbatim>\<open>Infinity\<close> parts of
  the grammar never apply: the literal is \<^verbatim>\<open>digits\<close>, \<^verbatim>\<open>digits.\<close>,
  \<^verbatim>\<open>digits.digits\<close> or \<^verbatim>\<open>.digits\<close>.
\<close>

definition parseFloat :: "string \<Rightarrow> rat option" where
  "parseFloat s =
     (let ip = takeWhile is_digit s;
          rest = dropWhile is_digit s;
          fp = (if rest \<noteq> [] \<and> hd rest = CHR ''.'' then takeWhile is_digit (tl rest) else [])
      in if ip \<noteq> [] then Some (of_nat (parseInt10 ip) + of_nat (parseInt10 fp) / 10 ^ length fp)
         else if fp \<noteq> [] then Some (of_nat (parseInt10 fp) / 10 ^ length fp)
         else None)"

section \<open>Confidence parser\<close>

text \<open>
  \<^verbatim>\<open>safeParseConfidence(raw)\<close>, lines 325-340.  The result is \<^verbatim>\<open>null\<close>
  (\<open>None\<close>) or a number that is not \<^verbatim>\<open>NaN\<close>.
\<close>

definition safeParseConfidence :: "host \<Rightarrow> jsval \<Rightarrow> rat option" where
  "safeParseConfidence h raw =
     (if raw = JNull \<or> raw = JUndefined \<or> raw = JStr [] then None
      else case raw of
        JNum n \<Rightarrow> (case n of NaN \<Rightarrow> None | Fin r \<Rightarrow> Some (if r \<le> 1 then r * 100 else r))
      | _ \<Rightarrow>
          (let cleaned = filter (\<lambda>c. is_digit c \<or> c = CHR ''.'') (trim (js_String h raw))
           in if cleaned = [] then None
              else case parseFloat cleaned of
                     None \<Rightarrow> None
                   | Some num \<Rightarrow> Some (if num \<le> 1 then num * 100 else num)))"

section \<open>Date parser\<close>

text \<open>
  The date arithmetic of ECMAScript (\<^verbatim>\<open>MakeDay\<close>, \<^verbatim>\<open>MakeTime\<close>,
  \<^verbatim>\<open>MakeDate\<close>, \<^verbatim>\<open>TimeClip\<close>) behind \<^verbatim>\<open>new Date(ms)\<close> and
  \<^verbatim>\<open>new Date(y, m, d, h, min, s)\<close>.  Months count from 0; a month outside
  0..11 and a day outside the month carry over into the neighbouring months.
\<close>

definition DayFromYear :: "int \<Rightarrow> int" where
  "DayFromYear y = 365 * (y - 1970) + (y - 1969) div 4 - (y - 1901) div 100 + (y - 1601) div 400"

definition InLeapYear :: "int \<Rightarrow> bool" where
  "InLeapYear y = ((y mod 4 = 0 \<and> y mod 100 \<noteq> 0) \<or> y mod 400 = 0)"

definition DaysBeforeMonth :: "bool \<Rightarrow> nat \<Rightarrow> int" where
  "DaysBeforeMonth leap m =
     [0, 31, 59, 90, 120, 151, 181, 212, 243, 273, 304, 334] ! m + (if leap \<and> 2 \<le> m then 1 else 0)"

definition MakeDay :: "int \<Rightarrow> int \<Rightarrow> int \<Rightarrow> int" where
  "MakeDay year month date =
     (let ym = year + month div 12; mn = month mod 12
      in DayFromYear ym + DaysBeforeMonth (InLeapYear ym) (nat mn) + date - 1)"

definition MakeTime :: "int \<Rightarrow> int \<Rightarrow> int \<Rightarrow> int \<Rightarrow> int" where
  "MakeTime hour minute sec ms = hour * 3600000 + minute * 60000 + sec * 1000 + ms"

definition MakeDate :: "int \<Rightarrow> int \<Rightarrow> int" where
  "MakeDate day time = day * 86400000 + time"

definition TimeClip :: "int \<Rightarrow> int option" where
  "TimeClip t = (if \<bar>t\<bar> \<le> 8640000000000000 then Some t else None)"

text \<open>\<^verbatim>\<open>new Date(y, m, d, h, min, s)\<close>: local time, years 0..99 mean 1900..1999.\<close>

definition newDateLocal :: "host \<Rightarrow> int \<Rightarrow> int \<Rightarrow> int \<Rightarrow> int \<Rightarrow> int \<Rightarrow> int \<Rightarrow> int option" where
  "newDateLocal h y mo d hh mi ss =
     (let yr = (if 0 \<le> y \<and> y \<le> 99 then 1900 + y else y)
      in TimeClip (localToUTC h (MakeDate (MakeDay yr mo d) (MakeTime hh mi ss 0))))"

text \<open>
  The regular expression of line 314,
  \<^verbatim>\<open>/^(\d{1,2})\/(\d{1,2})\/(\d{4})[ T](\d{1,2}):(\d{2})(?::(\d{2}))?/\<close>.
  Every digit group is followed by a character that is not a digit (or by
  nothing), so the greedy choice is the only one that can match and the matcher
  needs no backtracking.  \<open>digits lo hi s\<close> is \<^verbatim>\<open>\d{lo,hi}\<close> at the start of
  \<open>s\<close>: the digits taken and the rest.
\<close>

definition digits :: "nat \<Rightarrow> nat \<Rightarrow> string \<Rightarrow> (string \<times> string) option" where
  "digits lo hi s =
     (let ds = take hi (takeWhile is_digit s)
      in if length ds < lo then None else Some (ds, drop (length ds) s))"

definition lit :: "char list \<Rightarrow> string \<Rightarrow> string option" where
  "lit cs s = (if s \<noteq> [] \<and> hd s \<in> set cs then Some (tl s) else None)"

definition matchCreated :: "string \<Rightarrow> (string \<times> string \<times> string \<times> string \<times> string \<times> string option) option" where
  "matchCreated s =
     Option.bind (digits 1 2 s) (\<lambda>(m1, s1).
     Option.bind (lit ''/'' s1) (\<lambda>s2.
     Option.bind (digits 1 2 s2) (\<lambda>(m2, s3).
     Option.bind (lit ''/'' s3) (\<lambda>s4.
     Option.bind (digits 4 4 s4) (\<lambda>(m3, s5).
     Option.bind (lit '' T'' s5) (\<lambda>s6.
     Option.bind (digits 1 2 s6) (\<lambda>(m4, s7).
     Option.bind (lit '':'' s7) (\<lambda>s8.
     Option.bind (digits 2 2 s8) (\<lambda>(m5, s9).
     Some (m1, m2, m3, m4, m5,
           map_option fst (Option.bind (lit '':'' s9) (digits 2 2))))))))))))"

text \<open>
  \<^verbatim>\<open>parseCreatedDate(raw)\<close>, lines 300-323.  \<open>None\<close> is the invalid date
  \<^verbatim>\<open>new Date("Invalid")\<close>.  \<^verbatim>\<open>Math.round(x)\<close> is \<open>\<lfloor>x + 1/2\<rfloor>\<close>.
\<close>

definition parseCreatedDate :: "host \<Rightarrow> jsval \<Rightarrow> int option" where
  "parseCreatedDate h raw =
     (case raw of
        JDate (Some t) \<Rightarrow> Some t
      | JNum (Fin r) \<Rightarrow> TimeClip \<lfloor>(r - 25569) * 86400 * 1000 + 1 / 2\<rfloor>
      | JStr str \<Rightarrow>
          (let s = trim str; iso = dateParse h s
           in if iso \<noteq> None then iso
              else case matchCreated s of
                     None \<Rightarrow> None
                   | Some (m1, m2, m3, m4, m5, m6) \<Rightarrow>
                       (let mm = int (parseInt10 m1);
                            dd = int (parseInt10 m2);
                            yyyy = int (parseInt10 m3);
                            hh = int (parseInt10 m4);
                            min = int (parseInt10 m5);
                            ss = int (parseInt10 (case m6 of None \<Rightarrow> ''0'' | Some x \<Rightarrow> x))
                        in newDateLocal h yyyy (mm - 1) dd hh min ss))
      | _ \<Rightarrow> None)"

section \<open>Configuration\<close>

text \<open>
  The global constants of lines 27-59.  \<^verbatim>\<open>DEMO_FILL_MODE\<close> is a parameter of the
  fill engine below, so that all three modes can be stated.
\<close>

definition CONF_THRESHOLD :: rat where
  "CONF_THRESHOLD = 60"

definition SOURCE_ISSUE_FIELD :: string where
  "SOURCE_ISSUE_FIELD = ''Issue Type (MNSD)''"

definition SOURCE_CAUSE_FIELD :: string where
  "SOURCE_CAUSE_FIELD = ''Root Cause''"

definition TICKETS_TAB :: string where
  "TICKETS_TAB = ''Raw Import''"

definition ISSUE_TYPES_DEMO :: "string list" where
  "ISSUE_TYPES_DEMO =
     [''Update Requests'', ''Missing Records'', ''Inventory - Tracking'', ''Image Adjustments'',
      ''Policy - Config'', ''Taxonomy Update'', ''Photo Update'', ''Item Onboarding'',
      ''General Inquiry'', ''Other'']"

definition ROOT_CAUSES_DEMO :: "string list" where
  "ROOT_CAUSES_DEMO =
     [''Data Inconsistency'', ''Human Error'', ''System Limitation'', ''Onboarding Gaps'',
      ''Incorrect Input'', ''Other'']"

section \<open>Fill engine\<close>

datatype error = MissingTab string | TypeError string

text \<open>
  Array access as JavaScript has it.  \<open>row_at row i\<close> is \<^verbatim>\<open>row[i]\<close>:
  \<^verbatim>\<open>undefined\<close> past the end of the array, and for the index \<open>None\<close>
  (\<^verbatim>\<open>idx[name]\<close> of a name that is no header, so \<^verbatim>\<open>row[undefined]\<close>).
  \<open>row_set row i v\<close> is \<^verbatim>\<open>row[i] = v\<close>: past the end the array grows, the
  holes reading as \<^verbatim>\<open>undefined\<close>.
\<close>

fun row_at :: "jsval list \<Rightarrow> nat option \<Rightarrow> jsval" where
  "row_at row None = JUndefined"
| "row_at row (Some i) = (if i < length row then row ! i else JUndefined)"

fun row_set :: "jsval list \<Rightarrow> nat option \<Rightarrow> jsval \<Rightarrow> jsval list" where
  "row_set row None v = row"
| "row_set row (Some i) v =
     (if i < length row then row[i := v]
      else row @ replicate (i - length row) JUndefined @ [v])"

text \<open>
  \<^verbatim>\<open>Object.fromEntries(headers.map((h, i) => [h, i]))\<close>, line 159: the keys are
  the header cells as strings, and of two equal headers the later one wins.
\<close>

definition headerIndex :: "host \<Rightarrow> jsval list \<Rightarrow> (string \<rightharpoonup> nat)" where
  "headerIndex h headers = map_of (rev (zip (map (js_String h) headers) [0 ..< length headers]))"

definition required :: "string list" where
  "required =
     [''AI Issue Type'', ''AI Issue Type Confidence'', ''AI Root Cause'', ''AI Root Cause Confidence'']"

text \<open>The body of \<^verbatim>\<open>required.forEach\<close>, lines 168-177, on the pair (headers, idx).\<close>

definition ensureColumn :: "string \<Rightarrow> jsval list \<times> (string \<rightharpoonup> nat) \<Rightarrow> jsval list \<times> (string \<rightharpoonup> nat)" where
  "ensureColumn col st =
     (case st of (headers, idx) \<Rightarrow>
        if idx col \<noteq> None then (headers, idx)
        else (headers @ [JStr col], idx(col \<mapsto> length headers)))"

definition ensureColumns :: "host \<Rightarrow> jsval list \<Rightarrow> jsval list \<times> (string \<rightharpoonup> nat)" where
  "ensureColumns h headers = fold ensureColumn required (headers, headerIndex h headers)"

text \<open>
  The random source: \<open>rnd n\<close> is the result of the \<open>n\<close>-th call of
  \<^verbatim>\<open>Math.random()\<close> in the run, and the counter is threaded through.
\<close>

definition randPick :: "(nat \<Rightarrow> rat) \<Rightarrow> nat \<Rightarrow> string list \<Rightarrow> jsval \<times> nat" where
  "randPick rnd k arr =
     (let i = \<lfloor>rnd k * of_nat (length arr)\<rfloor>
      in (if 0 \<le> i \<and> nat i < length arr then JStr (arr ! nat i) else JUndefined, Suc k))"

definition randConf :: "(nat \<Rightarrow> rat) \<Rightarrow> nat \<Rightarrow> jsval \<times> nat" where
  "randConf rnd k =
     (JNum (Fin (of_int (max 30 (min 99 (round (65 + (rnd k - 1 / 2) * 20)))))), Suc k)"

text \<open>\<^verbatim>\<open>Math.round(c * 100)\<close> on a number.\<close>

fun roundTimes100 :: "jsnum \<Rightarrow> jsval" where
  "roundTimes100 NaN = JNum NaN"
| "roundTimes100 (Fin r) = JNum (Fin (of_int (round (r * 100))))"

text \<open>\<^verbatim>\<open>v === "" || v === null\<close>, lines 192-193.\<close>

definition needsFill :: "jsval \<Rightarrow> bool" where
  "needsFill v = (v = JStr [] \<or> v = JNull)"

text \<open>
  One turn of the loop of lines 184-245 on the row \<open>row\<close>, with the fill mode and
  the API key of the run.  In mirror mode \<^verbatim>\<open>idx.hasOwnProperty(...)\<close> is called
  on the header index itself, which raises a \<^verbatim>\<open>TypeError\<close> when a header is
  named \<^verbatim>\<open>hasOwnProperty\<close>.  The mock branch and the branch of gpt without a
  key are written out twice, as in the source.
\<close>

definition fillRow ::
  "host \<Rightarrow> string \<Rightarrow> string option \<Rightarrow> (string \<rightharpoonup> nat) \<Rightarrow> (nat \<Rightarrow> rat) \<Rightarrow> nat \<Rightarrow> jsval list
    \<Rightarrow> error + (jsval list \<times> nat)" where
  "fillRow h mode apiKey idx rnd k row =
     (let aiIssue = row_at row (idx ''AI Issue Type'');
          aiIssueConf = row_at row (idx ''AI Issue Type Confidence'');
          aiCause = row_at row (idx ''AI Root Cause'');
          aiCauseConf = row_at row (idx ''AI Root Cause Confidence'');
          needsIssue = needsFill aiIssue;
          needsCause = needsFill aiCause
      in
      if \<not> needsIssue \<and> \<not> needsCause then Inr (row, k)
      else if mode = ''mirror'' then
        (if idx ''hasOwnProperty'' \<noteq> None then Inl (TypeError ''idx.hasOwnProperty is not a function'')
         else
           let srcIssue = (if idx SOURCE_ISSUE_FIELD \<noteq> None then row_at row (idx SOURCE_ISSUE_FIELD) else JStr []);
               srcCause = (if idx SOURCE_CAUSE_FIELD \<noteq> None then row_at row (idx SOURCE_CAUSE_FIELD) else JStr []);
               (row1, k1) =
                 (if needsIssue then
                    let (v, k') = (if truthy srcIssue then (srcIssue, k) else randPick rnd k ISSUE_TYPES_DEMO);
                        r = row_set row (idx ''AI Issue Type'') v
                    in (row_set r (idx ''AI Issue Type Confidence'')
                          (if truthy aiIssueConf then aiIssueConf else JNum (Fin 90)), k')
                  else (row, k));
               (row2, k2) =
                 (if needsCause then
                    let (v, k') = (if truthy srcCause then (srcCause, k1) else randPick rnd k1 ROOT_CAUSES_DEMO);
                        r = row_set row1 (idx ''AI Root Cause'') v
                    in (row_set r (idx ''AI Root Cause Confidence'')
                          (if truthy aiCauseConf then aiCauseConf else JNum (Fin 90)), k')
                  else (row1, k1))
           in Inr (row2, k2))
      else if mode = ''mock'' then
        (let (row1, k1) =
               (if needsIssue then
                  let (v, k') = randPick rnd k ISSUE_TYPES_DEMO;
                      r = row_set row (idx ''AI Issue Type'') v;
                      (c, k'') = randConf rnd k'
                  in (row_set r (idx ''AI Issue Type Confidence'') c, k'')
                else (row, k));
             (row2, k2) =
               (if needsCause then
                  let (v, k') = randPick rnd k1 ROOT_CAUSES_DEMO;
                      r = row_set row1 (idx ''AI Root Cause'') v;
                      (c, k'') = randConf rnd k'
                  in (row_set r (idx ''AI Root Cause Confidence'') c, k'')
                else (row1, k1))
         in Inr (row2, k2))
      else if mode = ''gpt'' then
        (if apiKey = None \<or> apiKey = Some [] then
           (let (row1, k1) =
                  (if needsIssue then
                     let (v, k') = randPick rnd k ISSUE_TYPES_DEMO;
                         r = row_set row (idx ''AI Issue Type'') v;
                         (c, k'') = randConf rnd k'
                     in (row_set r (idx ''AI Issue Type Confidence'') c, k'')
                   else (row, k));
                (row2, k2) =
                  (if needsCause then
                     let (v, k') = randPick rnd k1 ROOT_CAUSES_DEMO;
                         r = row_set row1 (idx ''AI Root Cause'') v;
                         (c, k'') = randConf rnd k'
                     in (row_set r (idx ''AI Root Cause Confidence'') c, k'')
                   else (row1, k1))
            in Inr (row2, k2))
         else
           (let summary = (if idx ''Summary'' \<noteq> None then row_at row (idx ''Summary'') else JStr []);
                description = (if idx ''Description'' \<noteq> None then row_at row (idx ''Description'') else JStr []);
                pred = predict h summary description (case apiKey of Some key \<Rightarrow> key | None \<Rightarrow> []);
                (row1, k1) =
                  (if needsIssue then
                     let (v, k') =
                           (case pred of
                              Some p \<Rightarrow> if truthy (issueType p) then (issueType p, k)
                                        else randPick rnd k ISSUE_TYPES_DEMO
                            | None \<Rightarrow> randPick rnd k ISSUE_TYPES_DEMO);
                         r = row_set row (idx ''AI Issue Type'') v;
                         (c, k'') =
                           (case pred of
                              Some p \<Rightarrow> (case issueConfidence p of
                                           Some n \<Rightarrow> (roundTimes100 n, k')
                                         | None \<Rightarrow> randConf rnd k')
                            | None \<Rightarrow> randConf rnd k')
                     in (row_set r (idx ''AI Issue Type Confidence'') c, k'')
                   else (row, k));
                (row2, k2) =
                  (if needsCause then
                     let (v, k') =
                           (case pred of
                              Some p \<Rightarrow> if truthy (rootCause p) then (rootCause p, k1)
                                        else randPick rnd k1 ROOT_CAUSES_DEMO
                            | None \<Rightarrow> randPick rnd k1 ROOT_CAUSES_DEMO);
                         r = row_set row1 (idx ''AI Root Cause'') v;
                         (c, k'') =
                           (case pred of
                              Some p \<Rightarrow> (case rootConfidence p of
                                           Some n \<Rightarrow> (roundTimes100 n, k')
                                         | None \<Rightarrow> randConf rnd k')
                            | None \<Rightarrow> randConf rnd k')
                     in (row_set r (idx ''AI Root Cause Confidence'') c, k'')
                   else (row1, k1))
            in Inr (row2, k2)))
      else Inr (row, k))"

text \<open>The loop over the data rows: the first \<^verbatim>\<open>TypeError\<close> ends the run.\<close>

fun fillRows ::
  "host \<Rightarrow> string \<Rightarrow> string option \<Rightarrow> (string \<rightharpoonup> nat) \<Rightarrow> (nat \<Rightarrow> rat) \<Rightarrow> nat \<Rightarrow> jsval list list
    \<Rightarrow> error + (jsval list list \<times> nat)" where
  "fillRows h mode apiKey idx rnd k [] = Inr ([], k)"
| "fillRows h mode apiKey idx rnd k (row # rows) =
     (case fillRow h mode apiKey idx rnd k row of
        Inl e \<Rightarrow> Inl e
      | Inr (row', k') \<Rightarrow>
          (case fillRows h mode apiKey idx rnd k' rows of
             Inl e \<Rightarrow> Inl e
           | Inr (rows', k'') \<Rightarrow> Inr (row' # rows', k'')))"

text \<open>
  \<^verbatim>\<open>ensureAIFieldsPopulated(ss, ticketsTabName, apiKey)\<close>, lines 150-249.  The
  argument \<open>sheet\<close> is what \<^verbatim>\<open>getDataRange().getValues()\<close> reads from the tab
  (\<open>None\<close>: there is no such tab); the result is the array handed to
  \<^verbatim>\<open>range.setValues\<close> and the state of the random source.  With fewer than two
  rows the function returns before it writes, which leaves the sheet as it is.
\<close>

definition ensureAIFieldsPopulated ::
  "host \<Rightarrow> string \<Rightarrow> string option \<Rightarrow> (nat \<Rightarrow> rat) \<Rightarrow> nat \<Rightarrow> jsval list list option
    \<Rightarrow> error + (jsval list list \<times> nat)" where
  "ensureAIFieldsPopulated h mode apiKey rnd k sheet =
     (case sheet of
        None \<Rightarrow> Inl (MissingTab TICKETS_TAB)
      | Some values \<Rightarrow>
          if length values < 2 then Inr (values, k)
          else
            (let (headers, idx) = ensureColumns h (hd values)
             in case fillRows h mode apiKey idx rnd k (tl values) of
                  Inl e \<Rightarrow> Inl e
                | Inr (rows, k') \<Rightarrow> Inr (headers # rows, k')))"

section \<open>Reading the records\<close>

text \<open>
  A record is the object that \<^verbatim>\<open>getSheetDataAsObjects\<close> (lines 291-298) builds
  with \<^verbatim>\<open>Object.fromEntries\<close>: its entries in header order.  \<open>field row name\<close>
  is \<^verbatim>\<open>row[name]\<close>: the entry written last under that name, \<^verbatim>\<open>undefined\<close>
  when there is none.
\<close>

type_synonym rowobj = "(string \<times> jsval) list"

definition getSheetDataAsObjects :: "host \<Rightarrow> jsval list list \<Rightarrow> rowobj list" where
  "getSheetDataAsObjects h rangeValues =
     (if length rangeValues < 2 then []
      else map (\<lambda>row. map (\<lambda>i. (js_String h (hd rangeValues ! i), row_at row (Some i)))
                          [0 ..< length (hd rangeValues)])
               (tl rangeValues))"

definition field :: "rowobj \<Rightarrow> string \<Rightarrow> jsval" where
  "field row name = (case map_of (rev row) name of None \<Rightarrow> JUndefined | Some v \<Rightarrow> v)"

section \<open>Qualification filter\<close>

datatype reason =
    Pass
  | MissingBoth
  | InvalidIssue
  | InvalidRoot
  | BothBelow
  | IssueBelow
  | RootBelow

datatype window = Recent | Old

text \<open>
  \<^verbatim>\<open>conf < CONF_THRESHOLD\<close>.  On \<^verbatim>\<open>null\<close> JavaScript compares 0; the chain
  below never gets there.
\<close>

definition belowThreshold :: "rat option \<Rightarrow> bool" where
  "belowThreshold c = (case c of None \<Rightarrow> 0 < CONF_THRESHOLD | Some x \<Rightarrow> x < CONF_THRESHOLD)"

text \<open>The chain of lines 95-101.\<close>

definition reasonOf :: "rat option \<Rightarrow> rat option \<Rightarrow> reason" where
  "reasonOf issueConf rootConf =
     (if issueConf = None \<and> rootConf = None then MissingBoth
      else if issueConf = None then InvalidIssue
      else if rootConf = None then InvalidRoot
      else if belowThreshold issueConf \<and> belowThreshold rootConf then BothBelow
      else if belowThreshold issueConf then IssueBelow
      else if belowThreshold rootConf then RootBelow
      else Pass)"

text \<open>
  A row of the debug table, lines 103-114.  \<open>d_parsedISO\<close> holds the time value
  whose \<^verbatim>\<open>toISOString()\<close> is written, \<open>None\<close> for the text \<^verbatim>\<open>Invalid\<close>.
\<close>

record debugEntry =
  d_rowNo :: nat
  d_rawCreated :: jsval
  d_parsedISO :: "int option"
  d_summary :: jsval
  d_issueType :: jsval
  d_issueConf :: "rat option"
  d_rootCause :: jsval
  d_rootConf :: "rat option"
  d_window :: window
  d_reason :: reason

text \<open>
  The callback of \<^verbatim>\<open>data.filter\<close>, lines 86-117, on the record \<open>row\<close> at index
  \<open>i\<close>: whether the record is kept, and the debug row it pushes.  \<open>cutoff\<close> is
  the time value of \<^verbatim>\<open>cutoffDate\<close>.
\<close>

definition qualify :: "host \<Rightarrow> int \<Rightarrow> nat \<Rightarrow> rowobj \<Rightarrow> bool \<times> debugEntry" where
  "qualify h cutoff i row =
     (let created = parseCreatedDate h (field row ''Created'');
          inWindow = (case created of None \<Rightarrow> False | Some t \<Rightarrow> cutoff \<le> t);
          issueType = field row ''AI Issue Type'';
          issueConf = safeParseConfidence h (field row ''AI Issue Type Confidence'');
          rootCause = field row ''AI Root Cause'';
          rootConf = safeParseConfidence h (field row ''AI Root Cause Confidence'');
          reason = reasonOf issueConf rootConf
      in (inWindow \<and> reason = Pass,
          \<lparr>d_rowNo = i + 2,
           d_rawCreated = field row ''Created'',
           d_parsedISO = created,
           d_summary = (if truthy (field row ''Summary'') then field row ''Summary'' else JStr []),
           d_issueType = (if truthy issueType then issueType else JStr []),
           d_issueConf = issueConf,
           d_rootCause = (if truthy rootCause then rootCause else JStr []),
           d_rootConf = rootConf,
           d_window = (if inWindow then Recent else Old),
           d_reason = reason\<rparr>))"

text \<open>
  \<^verbatim>\<open>data.filter\<close> with its side effect: the records from index \<open>i\<close> on, and the
  debug rows pushed so far.  The result is the kept records and all debug rows.
\<close>

fun qualifyRows ::
  "host \<Rightarrow> int \<Rightarrow> nat \<Rightarrow> rowobj list \<Rightarrow> debugEntry list \<Rightarrow> rowobj list \<times> debugEntry list" where
  "qualifyRows h cutoff i [] debugRows = ([], debugRows)"
| "qualifyRows h cutoff i (row # rows) debugRows =
     (let (keep, d) = qualify h cutoff i row;
          (kept, debugRows') = qualifyRows h cutoff (Suc i) rows (debugRows @ [d])
      in (if keep then row # kept else kept, debugRows'))"

section \<open>Aggregator\<close>

record stats =
  s_count :: nat
  s_total :: rat

record groupSummary =
  g_key :: string
  g_count :: nat
  g_avg :: rat

text \<open>
  \<^verbatim>\<open>map\<close> of line 343 is an ordinary object, so \<^verbatim>\<open>map[key]\<close> also finds the
  properties of \<^verbatim>\<open>Object.prototype\<close>, all of them truthy.  For such a key
  line 347 creates no group, and lines 348-349 write to the inherited object
  instead of \<^verbatim>\<open>map\<close>.
\<close>

definition objectPrototypeKeys :: "string list" where
  "objectPrototypeKeys =
     [''constructor'', ''__defineGetter__'', ''__defineSetter__'', ''hasOwnProperty'',
      ''__lookupGetter__'', ''__lookupSetter__'', ''isPrototypeOf'', ''propertyIsEnumerable'',
      ''toString'', ''valueOf'', ''__proto__'', ''toLocaleString'']"

text \<open>The property key of line 345: \<^verbatim>\<open>row[keyField] || "Unknown"\<close>, as a string.\<close>

definition groupKey :: "host \<Rightarrow> string \<Rightarrow> rowobj \<Rightarrow> string" where
  "groupKey h keyField row =
     js_String h (if truthy (field row keyField) then field row keyField else JStr ''Unknown'')"

text \<open>Line 346: \<^verbatim>\<open>safeParseConfidence(row[confidenceField]) ?? 0\<close>.\<close>

definition confOrZero :: "host \<Rightarrow> string \<Rightarrow> rowobj \<Rightarrow> rat" where
  "confOrZero h confidenceField row =
     (case safeParseConfidence h (field row confidenceField) of None \<Rightarrow> 0 | Some c \<Rightarrow> c)"

text \<open>
  The body of \<^verbatim>\<open>data.forEach\<close>, lines 344-350.  The own properties of
  \<^verbatim>\<open>map\<close> are kept in the order of their creation.
\<close>

definition addRow :: "host \<Rightarrow> string \<Rightarrow> string \<Rightarrow> (string \<times> stats) list \<Rightarrow> rowobj \<Rightarrow> (string \<times> stats) list" where
  "addRow h keyField confidenceField m row =
     (let key = groupKey h keyField row;
          conf = confOrZero h confidenceField row
      in if key \<in> set objectPrototypeKeys then m
         else
           (let st = (case map_of m key of None \<Rightarrow> \<lparr>s_count = 0, s_total = 0\<rparr> | Some st \<Rightarrow> st)
            in AList.update key \<lparr>s_count = s_count st + 1, s_total = s_total st + conf\<rparr> m))"

text \<open>
  \<^verbatim>\<open>Object.entries\<close> lists the keys that are array indices (canonical decimal
  numerals up to \<open>2^32 - 2\<close>) first, in ascending numeric order, and then the
  other keys in the order of their creation.
\<close>

definition isArrayIndex :: "string \<Rightarrow> bool" where
  "isArrayIndex s =
     (s \<noteq> [] \<and> (\<forall>c \<in> set s. is_digit c) \<and> (s = ''0'' \<or> hd s \<noteq> CHR ''0'')
      \<and> parseInt10 s \<le> 4294967294)"

definition Object_entries :: "(string \<times> 'a) list \<Rightarrow> (string \<times> 'a) list" where
  "Object_entries m =
     sort_key (\<lambda>e. parseInt10 (fst e)) (filter (\<lambda>e. isArrayIndex (fst e)) m)
     @ filter (\<lambda>e. \<not> isArrayIndex (fst e)) m"

text \<open>
  \<^verbatim>\<open>Number(x.toFixed(1))\<close>: the nearest multiple of one tenth, a tie going away
  from zero; from \<open>10^21\<close> on \<^verbatim>\<open>toFixed\<close> prints the number itself.
\<close>

definition toFixed1 :: "rat \<Rightarrow> rat" where
  "toFixed1 x =
     (if 10 ^ 21 \<le> \<bar>x\<bar> then x
      else if x < 0 then - (of_int \<lfloor>- x * 10 + 1 / 2\<rfloor> / 10)
      else of_int \<lfloor>x * 10 + 1 / 2\<rfloor> / 10)"

text \<open>
  \<^verbatim>\<open>summarizeByKey(data, keyField, confidenceField)\<close>, lines 342-356.
  \<^verbatim>\<open>Array.prototype.sort\<close> is stable, and the comparison function
  \<^verbatim>\<open>b.count - a.count\<close> orders by descending count.
\<close>

definition summarizeByKey :: "host \<Rightarrow> rowobj list \<Rightarrow> string \<Rightarrow> string \<Rightarrow> groupSummary list" where
  "summarizeByKey h data keyField confidenceField =
     take 5
       (sort_key (\<lambda>g. - int (g_count g))
          (map (\<lambda>e. \<lparr>g_key = fst e,
                     g_count = s_count (snd e),
                     g_avg = toFixed1 (s_total (snd e) / of_nat (s_count (snd e)))\<rparr>)
               (Object_entries (foldl (addRow h keyField confidenceField) [] data))))"

section \<open>Entry point\<close>

text \<open>
  \<^verbatim>\<open>mainTrendPipeline\<close>, lines 76-121, from the second reading of the tab on:
  \<open>sheet\<close> is what \<^verbatim>\<open>getValues()\<close> gives at line 79, after the fill engine has
  written.  The result is the qualified records, the two summaries and the
  rows of the debug table.
\<close>

definition mainTrendPipeline ::
  "host \<Rightarrow> int \<Rightarrow> jsval list list option
    \<Rightarrow> error + (rowobj list \<times> groupSummary list \<times> groupSummary list \<times> debugEntry list)" where
  "mainTrendPipeline h cutoff sheet =
     (case sheet of
        None \<Rightarrow> Inl (MissingTab TICKETS_TAB)
      | Some rangeValues \<Rightarrow>
          (let data = getSheetDataAsObjects h rangeValues;
               (recentQualified, debugRows) = qualifyRows h cutoff 0 data [];
               issueSummary = summarizeByKey h recentQualified ''AI Issue Type'' ''AI Issue Type Confidence'';
               causeSummary = summarizeByKey h recentQualified ''AI Root Cause'' ''AI Root Cause Confidence''
           in Inr (recentQualified, issueSummary, causeSummary, debugRows)))"

section \<open>The aggregator as a specification\<close>

text \<open>
  A second description of \<^verbatim>\<open>summarizeByKey\<close>, independent of the loop: which
  groups exist, in which order, and what each of them holds.  The theorems
  below compare it with the function above.

  \<open>discovered\<close> lists the labels in the order of their first record, without
  the labels that are properties of \<^verbatim>\<open>Object.prototype\<close>.  \<open>entryOrder\<close> is the
  order of \<^verbatim>\<open>Object.entries\<close> on keys.  \<open>groupOf\<close> is the summary of one
  label: the number of its records and the mean of their confidences, an
  unparseable confidence counting as 0, rounded to one decimal.
\<close>

definition discovered :: "host \<Rightarrow> string \<Rightarrow> rowobj list \<Rightarrow> string list" where
  "discovered h keyField data =
     rev (remdups (rev (filter (\<lambda>k. k \<notin> set objectPrototypeKeys) (map (groupKey h keyField) data))))"

definition entryOrder :: "string list \<Rightarrow> string list" where
  "entryOrder ks = sort_key parseInt10 (filter isArrayIndex ks) @ filter (\<lambda>k. \<not> isArrayIndex k) ks"

definition groupStats :: "host \<Rightarrow> string \<Rightarrow> string \<Rightarrow> rowobj list \<Rightarrow> string \<Rightarrow> stats" where
  "groupStats h keyField confidenceField data k =
     (let members = filter (\<lambda>row. groupKey h keyField row = k) data
      in \<lparr>s_count = length members,
          s_total = sum_list (map (confOrZero h confidenceField) members)\<rparr>)"

definition groupOf :: "host \<Rightarrow> string \<Rightarrow> string \<Rightarrow> rowobj list \<Rightarrow> string \<Rightarrow> groupSummary" where
  "groupOf h keyField confidenceField data k =
     (let members = filter (\<lambda>row. groupKey h keyField row = k) data
      in \<lparr>g_key = k,
          g_count = length members,
          g_avg = toFixed1 (sum_list (map (confOrZero h confidenceField) members)
                            / of_nat (length members))\<rparr>)"

definition aggregateSpec :: "host \<Rightarrow> rowobj list \<Rightarrow> string \<Rightarrow> string \<Rightarrow> groupSummary list" where
  "aggregateSpec h data keyField confidenceField =
     take 5
       (sort_key (\<lambda>g. - int (g_count g))
          (map (groupOf h keyField confidenceField data)
               (entryOrder (discovered h keyField data))))"

section \<open>A host for concrete runs\<close>

text \<open>
  A host in the UTC time zone whose \<^verbatim>\<open>Date\<close> constructor accepts no string and
  whose classifier always fails.  It serves to evaluate the functions above at
  concrete inputs.
\<close>

definition utcHost :: host where
  "utcHost =
     \<lparr>dateParse = (\<lambda>s. None),
      localToUTC = (\<lambda>t. t),
      dateToString = (\<lambda>t. []),
      numberToString = (\<lambda>r. []),
      predict = (\<lambda>summary description key. None)\<rparr>"

text \<open>
  The end-to-end scenario of the specification, with the cutoff at serial day
  44000: a recent record with confidences 90 and 70, an old record with the
  same confidences, and a recent record with confidences 40 and 55.
\<close>

definition demoCutoff :: int where
  "demoCutoff = 1592438400000"

definition demoRecord :: "rat \<Rightarrow> string \<Rightarrow> rat \<Rightarrow> string \<Rightarrow> rat \<Rightarrow> rowobj" where
  "demoRecord serial issue issueConf cause causeConf =
     [(''Created'', JNum (Fin serial)),
      (''AI Issue Type'', JStr issue),
      (''AI Issue Type Confidence'', JNum (Fin issueConf)),
      (''AI Root Cause'', JStr cause),
      (''AI Root Cause Confidence'', JNum (Fin causeConf))]"

definition demoHeaders :: "jsval list" where
  "demoHeaders =
     [JStr ''Created'', JStr ''AI Issue Type'', JStr ''AI Issue Type Confidence'',
      JStr ''AI Root Cause'', JStr ''AI Root Cause Confidence'']"

definition demoSheet :: "jsval list list" where
  "demoSheet =
     [demoHeaders,
      [JNum (Fin 44025), JStr ''Other'', JNum (Fin 90), JStr ''Human Error'', JNum (Fin 70)],
      [JNum (Fin 43960), JStr ''Other'', JNum (Fin 90), JStr ''Human Error'', JNum (Fin 70)],
      [JNum (Fin 44030), JStr ''Other'', JNum (Fin 40), JStr ''Human Error'', JNum (Fin 55)]]"

text \<open>
  A tab with the four classification columns and two records: one whose issue
  label is empty while its issue confidence is 80, and one with all four cells
  empty.  The random source always answers one half.
\<close>

definition fillHeaders :: "jsval list" where
  "fillHeaders =
     [JStr ''AI Issue Type'', JStr ''AI Issue Type Confidence'',
      JStr ''AI Root Cause'', JStr ''AI Root Cause Confidence'']"

definition fillSheet :: "jsval list list" where
  "fillSheet =
     [fillHeaders,
      [JStr [], JNum (Fin 80), JStr ''Human Error'', JNum (Fin 70)],
      [JStr [], JStr [], JStr [], JStr []]]"

definition halfSource :: "nat \<Rightarrow> rat" where
  "halfSource n = 1 / 2"

text \<open>
  \<^verbatim>\<open>row[idx[name]]\<close> for row \<open>r\<close> of the array \<open>values\<close>, with \<^verbatim>\<open>idx\<close> as lines
  158-177 compute it from the header row of the tab \<open>sheet\<close>.
\<close>

definition aiCell :: "host \<Rightarrow> jsval list list \<Rightarrow> jsval list list \<Rightarrow> nat \<Rightarrow> string \<Rightarrow> jsval" where
  "aiCell h sheet values r name = row_at (values ! r) (snd (ensureColumns h (hd sheet)) name)"

text \<open>
  Records for the aggregator: a label and a confidence under the field names
  \<^verbatim>\<open>L\<close> and \<^verbatim>\<open>C\<close>.
\<close>

definition labelled :: "jsval \<Rightarrow> jsval \<Rightarrow> rowobj" where
  "labelled label conf = [(''L'', label), (''C'', conf)]"

section \<open>Properties of the confidence parser\<close>

lemma parseFloat_nonneg: "parseFloat s = Some x \<Longrightarrow> 0 \<le> x"
  by (auto simp: parseFloat_def Let_def split: if_splits)

lemma ws_not_kept: "is_ws c \<Longrightarrow> \<not> (is_digit c \<or> c = CHR ''.'')"
  by (auto simp: is_ws_def is_digit_def)

lemma filter_dropWhile_disjoint:
  assumes "\<And>c. Q c \<Longrightarrow> \<not> P c"
  shows "filter P (dropWhile Q s) = filter P s"
  using assms by (induction s) auto

lemma filter_trim:
  "filter (\<lambda>c. is_digit c \<or> c = CHR ''.'') (trim s) = filter (\<lambda>c. is_digit c \<or> c = CHR ''.'') s"
proof -
  let ?P = "\<lambda>c. is_digit c \<or> c = CHR ''.''"
  have d: "filter ?P (dropWhile is_ws xs) = filter ?P xs" for xs
    by (rule filter_dropWhile_disjoint) (rule ws_not_kept)
  have "filter ?P (trim s) = rev (filter ?P (dropWhile is_ws (rev (dropWhile is_ws s))))"
    unfolding trim_def by (simp only: rev_filter rev_rev_ident)
  also have "\<dots> = rev (filter ?P (rev (dropWhile is_ws s)))"
    by (simp only: d)
  also have "\<dots> = filter ?P (dropWhile is_ws s)"
    by (simp only: rev_filter rev_rev_ident)
  also have "\<dots> = filter ?P s"
    by (simp only: d)
  finally show ?thesis .
qed

lemma parseFloat_Nil: "parseFloat [] = None"
  by (simp add: parseFloat_def)

lemma safeParseConfidence_JStr:
  "safeParseConfidence h (JStr s) =
     (case parseFloat (filter (\<lambda>c. is_digit c \<or> c = CHR ''.'') s) of
        None \<Rightarrow> None
      | Some num \<Rightarrow> Some (if num \<le> 1 then num * 100 else num))"
proof (cases "filter (\<lambda>c. is_digit c \<or> c = CHR ''.'') s = []")
  case True
  then show ?thesis
    by (simp add: safeParseConfidence_def filter_trim parseFloat_Nil Let_def)
next
  case False
  then have "s \<noteq> []" by auto
  with False show ?thesis
    by (simp add: safeParseConfidence_def filter_trim Let_def)
qed

text \<open>
  C2, as the code has it.  \<^verbatim>\<open>safeParseConfidence\<close> returns \<^verbatim>\<open>null\<close> or a
  number, but the number is not always in the interval from 0 to 100: a numeric
  input \<open>r\<close> gives a result in that interval exactly when \<open>r\<close> itself is in it,
  and any other input gives \<^verbatim>\<open>null\<close> or a number that is at least 0.
\<close>

theorem safeParseConfidence_range:
  "(\<forall>r. raw = JNum (Fin r) \<longrightarrow>
      (\<exists>c. safeParseConfidence h raw = Some c \<and> ((0 \<le> c \<and> c \<le> 100) = (0 \<le> r \<and> r \<le> 100))))
   \<and> ((\<forall>n. raw \<noteq> JNum n) \<longrightarrow>
      safeParseConfidence h raw = None \<or> (\<exists>c. safeParseConfidence h raw = Some c \<and> 0 \<le> c))"
proof (intro conjI allI impI)
  fix r assume "raw = JNum (Fin r)"
  then show "\<exists>c. safeParseConfidence h raw = Some c \<and> ((0 \<le> c \<and> c \<le> 100) = (0 \<le> r \<and> r \<le> 100))"
    by (auto simp: safeParseConfidence_def)
next
  assume notnum: "\<forall>n. raw \<noteq> JNum n"
  show "safeParseConfidence h raw = None \<or> (\<exists>c. safeParseConfidence h raw = Some c \<and> 0 \<le> c)"
  proof (cases "safeParseConfidence h raw")
    case None
    then show ?thesis by simp
  next
    case (Some c)
    let ?cleaned = "filter (\<lambda>c. is_digit c \<or> c = CHR ''.'') (trim (js_String h raw))"
    from Some notnum obtain num where pf: "parseFloat ?cleaned = Some num"
      and c: "c = (if num \<le> 1 then num * 100 else num)"
      by (cases raw) (auto simp: safeParseConfidence_def Let_def split: if_splits option.splits)
    from parseFloat_nonneg[OF pf] c have "0 \<le> c" by auto
    with Some show ?thesis by simp
  qed
qed

theorem safeParseConfidence_range_witness:
  "(\<exists>c. safeParseConfidence utcHost (JNum (Fin 75)) = Some c \<and> 0 \<le> c \<and> c \<le> 100)
   \<and> (\<exists>c. safeParseConfidence utcHost (JStr ''72%'') = Some c \<and> 0 \<le> c)"
proof -
  have a: "\<exists>c. safeParseConfidence utcHost (JNum (Fin 75)) = Some c \<and> 0 \<le> c \<and> c \<le> 100"
    using safeParseConfidence_range[of "JNum (Fin 75)" utcHost] by auto
  have "safeParseConfidence utcHost (JStr ''72%'') \<noteq> None"
    by (simp add: safeParseConfidence_JStr is_digit_def parseFloat_def)
  then have b: "\<exists>c. safeParseConfidence utcHost (JStr ''72%'') = Some c \<and> 0 \<le> c"
    using safeParseConfidence_range[of "JStr ''72%''" utcHost] by auto
  show ?thesis
    by (intro conjI) (rule a b)+
qed

theorem safeParseConfidence_range_counterexample:
  "safeParseConfidence utcHost (JNum (Fin 150)) = Some 150 \<and> \<not> (150 :: rat) \<le> 100
   \<and> safeParseConfidence utcHost (JNum (Fin (- 5))) = Some (- 500) \<and> \<not> (0 :: rat) \<le> - 500"
  by (simp add: safeParseConfidence_def)



section \<open>Properties of the date parser\<close>

lemma floor_int_plus_half: "\<lfloor>(of_int k :: rat) + 1 / 2\<rfloor> = k"
  by (simp add: floor_eq_iff)

lemma serial_ms: "\<lfloor>((of_int n :: rat) - 25569) * 86400 * 1000 + 1 / 2\<rfloor> = (n - 25569) * 86400000"
proof -
  have "((of_int n :: rat) - 25569) * 86400 * 1000 + 1 / 2 = of_int ((n - 25569) * 86400000) + 1 / 2"
    by simp
  then show ?thesis
    by (simp only: floor_int_plus_half)
qed

lemma MakeDay_epoch: "MakeDay 1899 11 30 = - 25569"
  by (simp add: MakeDay_def DayFromYear_def DaysBeforeMonth_def InLeapYear_def)

lemma MakeDay_2020: "MakeDay 2020 5 18 = 18431"
  by (simp add: MakeDay_def DayFromYear_def DaysBeforeMonth_def InLeapYear_def)

lemma MakeDay_2025: "MakeDay 2025 1 14 = 20133"
  by (simp add: MakeDay_def DayFromYear_def DaysBeforeMonth_def InLeapYear_def)

lemma MakeDay_overflow: "MakeDay 2024 12 45 = 20133"
  by (simp add: MakeDay_def DayFromYear_def DaysBeforeMonth_def InLeapYear_def)

lemma match_13_45:
  "matchCreated ''13/45/2024 10:00'' = Some (''13'', ''45'', ''2024'', ''10'', ''00'', None)"
  by (simp add: matchCreated_def digits_def lit_def is_digit_def)

lemma trim_13_45: "trim ''13/45/2024 10:00'' = ''13/45/2024 10:00''"
  by (simp add: trim_def is_ws_def)

lemma ints_13_45:
  "parseInt10 ''13'' = 13" "parseInt10 ''45'' = 45" "parseInt10 ''2024'' = 2024"
  "parseInt10 ''10'' = 10" "parseInt10 ''00'' = 0" "parseInt10 ''0'' = 0"
  by (simp_all add: parseInt10_def digit_val_def)

lemma parse_13_45:
  "parseCreatedDate h (JStr ''13/45/2024 10:00'') =
     (case dateParse h ''13/45/2024 10:00'' of
        Some t \<Rightarrow> Some t
      | None \<Rightarrow> TimeClip (localToUTC h (MakeDate (MakeDay 2025 1 14) (MakeTime 10 0 0 0))))"
  by (simp add: parseCreatedDate_def trim_13_45 match_13_45 ints_13_45 newDateLocal_def
      MakeDay_overflow MakeDay_2025 split: option.split)

lemma parse_serial_int:
  "parseCreatedDate h (JNum (Fin (of_int n))) = TimeClip (MakeDate (MakeDay 1899 11 30 + n) 0)"
proof -
  have "parseCreatedDate h (JNum (Fin (of_int n))) = TimeClip ((n - 25569) * 86400000)"
    unfolding parseCreatedDate_def by (simp only: jsval.case jsnum.case serial_ms)
  also have "(n - 25569) * 86400000 = MakeDate (MakeDay 1899 11 30 + n) 0"
    by (simp add: MakeDay_epoch MakeDate_def)
  finally show ?thesis .
qed

text \<open>
  C6, as the code has it.  A number is read as a serial day count from
  1899-12-30: the time value is \<^verbatim>\<open>Math.round((raw - 25569) * 86400 * 1000)\<close>,
  valid when \<^verbatim>\<open>TimeClip\<close> accepts it, so a whole serial \<open>n\<close> is midnight UTC
  of the day \<open>n\<close> days after 1899-12-30, and 44000 is 2020-06-18T00:00Z.  The
  text \<^verbatim>\<open>13/45/2024 10:00\<close> is not rejected: when the host's own parser does
  not take it, the pattern of line 314 matches it, and month 13 and day 45
  carry over to 14 February 2025, 10:00 local time.
\<close>

theorem parseCreatedDate_serial_and_overflow:
  "parseCreatedDate h (JNum (Fin r)) = TimeClip \<lfloor>(r - 25569) * 86400 * 1000 + 1 / 2\<rfloor>
   \<and> MakeDay 1899 11 30 = - 25569
   \<and> parseCreatedDate h (JNum (Fin (of_int n))) = TimeClip (MakeDate (MakeDay 1899 11 30 + n) 0)
   \<and> parseCreatedDate h (JNum (Fin 44000)) = Some (MakeDate (MakeDay 2020 5 18) 0)
   \<and> parseCreatedDate h (JStr ''13/45/2024 10:00'') =
       (case dateParse h ''13/45/2024 10:00'' of
          Some t \<Rightarrow> Some t
        | None \<Rightarrow> TimeClip (localToUTC h (MakeDate (MakeDay 2025 1 14) (MakeTime 10 0 0 0))))"
proof -
  have a: "parseCreatedDate h (JNum (Fin r)) = TimeClip \<lfloor>(r - 25569) * 86400 * 1000 + 1 / 2\<rfloor>"
    by (simp add: parseCreatedDate_def)
  have "parseCreatedDate h (JNum (Fin (of_int 44000))) = TimeClip (MakeDate (MakeDay 1899 11 30 + 44000) 0)"
    by (rule parse_serial_int)
  then have b: "parseCreatedDate h (JNum (Fin 44000)) = Some (MakeDate (MakeDay 2020 5 18) 0)"
    by (simp add: MakeDay_epoch MakeDay_2020 MakeDate_def TimeClip_def)
  show ?thesis
    by (intro conjI) (rule a MakeDay_epoch parse_serial_int b parse_13_45)+
qed

theorem parseCreatedDate_serial_and_overflow_witness:
  "parseCreatedDate utcHost (JNum (Fin 44000)) = Some 1592438400000
   \<and> parseCreatedDate utcHost (JNum (Fin 0)) = Some (- 2209161600000)
   \<and> parseCreatedDate utcHost (JStr ''13/45/2024 10:00'') = Some 1739527200000"
proof -
  note inst = parseCreatedDate_serial_and_overflow[of utcHost 0 0]
  have a: "parseCreatedDate utcHost (JNum (Fin 44000)) = Some 1592438400000"
    using inst[THEN conjunct2, THEN conjunct2, THEN conjunct2, THEN conjunct1]
    by (simp add: MakeDay_2020 MakeDate_def)
  have b: "parseCreatedDate utcHost (JNum (Fin 0)) = Some (- 2209161600000)"
    using inst[THEN conjunct2, THEN conjunct2, THEN conjunct1]
    by (simp add: MakeDay_epoch MakeDate_def TimeClip_def)
  have c: "parseCreatedDate utcHost (JStr ''13/45/2024 10:00'') = Some 1739527200000"
    using inst[THEN conjunct2, THEN conjunct2, THEN conjunct2, THEN conjunct2]
    by (simp add: utcHost_def MakeDay_2025 MakeDate_def MakeTime_def TimeClip_def)
  show ?thesis
    by (intro conjI) (rule a b c)+
qed

theorem parseCreatedDate_invalid_calendar_counterexample:
  "parseCreatedDate utcHost (JStr ''13/45/2024 10:00'') = Some 1739527200000
   \<and> parseCreatedDate utcHost (JStr ''13/45/2024 10:00'') \<noteq> None"
  by (simp add: parse_13_45 utcHost_def MakeDay_2025 MakeDate_def MakeTime_def TimeClip_def)

section \<open>Properties of the qualification filter\<close>

lemma reasonOf_cases:
  "(reasonOf ic rc = MissingBoth) = (ic = None \<and> rc = None)"
  "(reasonOf ic rc = InvalidIssue) = (ic = None \<and> rc \<noteq> None)"
  "(reasonOf ic rc = InvalidRoot) = (ic \<noteq> None \<and> rc = None)"
  "(reasonOf ic rc = BothBelow) =
     (\<exists>a b. ic = Some a \<and> rc = Some b \<and> a < CONF_THRESHOLD \<and> b < CONF_THRESHOLD)"
  "(reasonOf ic rc = IssueBelow) =
     (\<exists>a b. ic = Some a \<and> rc = Some b \<and> a < CONF_THRESHOLD \<and> \<not> b < CONF_THRESHOLD)"
  "(reasonOf ic rc = RootBelow) =
     (\<exists>a b. ic = Some a \<and> rc = Some b \<and> \<not> a < CONF_THRESHOLD \<and> b < CONF_THRESHOLD)"
  "(reasonOf ic rc = Pass) =
     (\<exists>a b. ic = Some a \<and> rc = Some b \<and> \<not> a < CONF_THRESHOLD \<and> \<not> b < CONF_THRESHOLD)"
  by (cases ic; cases rc; simp add: reasonOf_def belowThreshold_def)+

lemma qualify_fst:
  "fst (qualify h cutoff i row) =
     (reasonOf (safeParseConfidence h (field row ''AI Issue Type Confidence''))
               (safeParseConfidence h (field row ''AI Root Cause Confidence'')) = Pass
      \<and> (\<exists>t. parseCreatedDate h (field row ''Created'') = Some t \<and> cutoff \<le> t))"
  by (cases "parseCreatedDate h (field row ''Created'')") (auto simp: qualify_def Let_def)

lemma qualify_window:
  "(d_window (snd (qualify h cutoff i row)) = Recent) =
     (\<exists>t. parseCreatedDate h (field row ''Created'') = Some t \<and> cutoff \<le> t)"
  by (cases "parseCreatedDate h (field row ''Created'')") (auto simp: qualify_def Let_def)

lemma qualify_reason:
  "d_reason (snd (qualify h cutoff i row)) =
     reasonOf (safeParseConfidence h (field row ''AI Issue Type Confidence''))
              (safeParseConfidence h (field row ''AI Root Cause Confidence''))"
  by (simp add: qualify_def Let_def)

lemma qualify_rowNo: "d_rowNo (snd (qualify h cutoff i row)) = i + 2"
  by (simp add: qualify_def Let_def)

lemma qualify_rawCreated: "d_rawCreated (snd (qualify h cutoff i row)) = field row ''Created''"
  by (simp add: qualify_def Let_def)

lemma qualifyRows_kept:
  "fst (qualifyRows h cutoff i data debugRows) = filter (\<lambda>row. fst (qualify h cutoff 0 row)) data"
proof (induction data arbitrary: i debugRows)
  case Nil
  show ?case by simp
next
  case (Cons row rows)
  have same: "fst (qualify h cutoff i row) = fst (qualify h cutoff 0 row)"
    by (simp only: qualify_fst)
  obtain keep d where q: "qualify h cutoff i row = (keep, d)"
    by (cases "qualify h cutoff i row")
  obtain kept dbg where r: "qualifyRows h cutoff (Suc i) rows (debugRows @ [d]) = (kept, dbg)"
    by (cases "qualifyRows h cutoff (Suc i) rows (debugRows @ [d])")
  from Cons.IH[of "Suc i" "debugRows @ [d]"] r
  have kept: "kept = filter (\<lambda>row. fst (qualify h cutoff 0 row)) rows"
    by simp
  from same q have keep: "keep = fst (qualify h cutoff 0 row)"
    by simp
  show ?case
    by (simp add: q r kept keep)
qed

lemma qualifyRows_debug:
  "snd (qualifyRows h cutoff i data debugRows) =
     debugRows @ map (\<lambda>(j, row). snd (qualify h cutoff j row)) (enumerate i data)"
proof (induction data arbitrary: i debugRows)
  case Nil
  show ?case by simp
next
  case (Cons row rows)
  obtain keep d where q: "qualify h cutoff i row = (keep, d)"
    by (cases "qualify h cutoff i row")
  obtain kept dbg where r: "qualifyRows h cutoff (Suc i) rows (debugRows @ [d]) = (kept, dbg)"
    by (cases "qualifyRows h cutoff (Suc i) rows (debugRows @ [d])")
  from Cons.IH[of "Suc i" "debugRows @ [d]"] r
  have "dbg = (debugRows @ [d]) @ map (\<lambda>(j, row). snd (qualify h cutoff j row)) (enumerate (Suc i) rows)"
    by simp
  then show ?case
    by (simp add: q r)
qed

lemma length_getSheetDataAsObjects: "length (getSheetDataAsObjects h rangeValues) = length rangeValues - 1"
  by (simp add: getSheetDataAsObjects_def)

text \<open>
  C1.  The reason is a function of the two parsed confidences, so a record has
  exactly one of the seven reason states, and each state holds exactly under the
  condition the specification lists for it, the earlier conditions excluded.  A
  record is kept exactly when its reason is \<open>Pass\<close> and its creation date parses
  to a time at or after the cutoff, which is when its window verdict is
  \<open>Recent\<close>.
\<close>

theorem qualification_reason_and_inclusion:
  "(reasonOf ic rc = MissingBoth) = (ic = None \<and> rc = None)
   \<and> (reasonOf ic rc = InvalidIssue) = (ic = None \<and> rc \<noteq> None)
   \<and> (reasonOf ic rc = InvalidRoot) = (ic \<noteq> None \<and> rc = None)
   \<and> (reasonOf ic rc = BothBelow) =
        (\<exists>a b. ic = Some a \<and> rc = Some b \<and> a < CONF_THRESHOLD \<and> b < CONF_THRESHOLD)
   \<and> (reasonOf ic rc = IssueBelow) =
        (\<exists>a b. ic = Some a \<and> rc = Some b \<and> a < CONF_THRESHOLD \<and> \<not> b < CONF_THRESHOLD)
   \<and> (reasonOf ic rc = RootBelow) =
        (\<exists>a b. ic = Some a \<and> rc = Some b \<and> \<not> a < CONF_THRESHOLD \<and> b < CONF_THRESHOLD)
   \<and> (reasonOf ic rc = Pass) =
        (\<exists>a b. ic = Some a \<and> rc = Some b \<and> \<not> a < CONF_THRESHOLD \<and> \<not> b < CONF_THRESHOLD)
   \<and> d_reason (snd (qualify h cutoff i row)) =
        reasonOf (safeParseConfidence h (field row ''AI Issue Type Confidence''))
                 (safeParseConfidence h (field row ''AI Root Cause Confidence''))
   \<and> (d_window (snd (qualify h cutoff i row)) = Recent) =
        (\<exists>t. parseCreatedDate h (field row ''Created'') = Some t \<and> cutoff \<le> t)
   \<and> fst (qualify h cutoff i row) =
        (d_reason (snd (qualify h cutoff i row)) = Pass \<and> d_window (snd (qualify h cutoff i row)) = Recent)
   \<and> fst (qualifyRows h cutoff 0 data []) =
        filter (\<lambda>row. d_reason (snd (qualify h cutoff 0 row)) = Pass
                     \<and> (\<exists>t. parseCreatedDate h (field row ''Created'') = Some t \<and> cutoff \<le> t)) data"
proof -
  have incl: "fst (qualify h cutoff i row) =
        (d_reason (snd (qualify h cutoff i row)) = Pass \<and> d_window (snd (qualify h cutoff i row)) = Recent)"
    by (simp only: qualify_fst qualify_reason qualify_window)
  have "(\<lambda>row. fst (qualify h cutoff 0 row)) =
        (\<lambda>row. d_reason (snd (qualify h cutoff 0 row)) = Pass
                     \<and> (\<exists>t. parseCreatedDate h (field row ''Created'') = Some t \<and> cutoff \<le> t))"
    by (simp only: qualify_fst qualify_reason)
  then have sub: "fst (qualifyRows h cutoff 0 data []) =
        filter (\<lambda>row. d_reason (snd (qualify h cutoff 0 row)) = Pass
                     \<and> (\<exists>t. parseCreatedDate h (field row ''Created'') = Some t \<and> cutoff \<le> t)) data"
    by (simp only: qualifyRows_kept)
  show ?thesis
    by (intro conjI) (rule reasonOf_cases qualify_reason qualify_window incl sub)+
qed

lemma demo_data:
  "getSheetDataAsObjects h demoSheet =
     [demoRecord 44025 ''Other'' 90 ''Human Error'' 70,
      demoRecord 43960 ''Other'' 90 ''Human Error'' 70,
      demoRecord 44030 ''Other'' 40 ''Human Error'' 55]"
  by (simp add: getSheetDataAsObjects_def demoSheet_def demoHeaders_def demoRecord_def upt_rec)

lemma demo_fields:
  "field (demoRecord s i ic c cc) ''Created'' = JNum (Fin s)"
  "field (demoRecord s i ic c cc) ''AI Issue Type'' = JStr i"
  "field (demoRecord s i ic c cc) ''AI Issue Type Confidence'' = JNum (Fin ic)"
  "field (demoRecord s i ic c cc) ''AI Root Cause'' = JStr c"
  "field (demoRecord s i ic c cc) ''AI Root Cause Confidence'' = JNum (Fin cc)"
  "field (demoRecord s i ic c cc) ''Summary'' = JUndefined"
  by (simp_all add: field_def demoRecord_def)

lemma demo_created:
  "parseCreatedDate h (JNum (Fin 44025)) = Some 1594598400000"
  "parseCreatedDate h (JNum (Fin 43960)) = Some 1588982400000"
  "parseCreatedDate h (JNum (Fin 44030)) = Some 1595030400000"
  using parse_serial_int[of h 44025] parse_serial_int[of h 43960] parse_serial_int[of h 44030]
  by (simp_all add: MakeDay_epoch MakeDate_def TimeClip_def)

lemma demo_conf:
  "safeParseConfidence h (JNum (Fin 90)) = Some 90"
  "safeParseConfidence h (JNum (Fin 70)) = Some 70"
  "safeParseConfidence h (JNum (Fin 40)) = Some 40"
  "safeParseConfidence h (JNum (Fin 55)) = Some 55"
  by (simp_all add: safeParseConfidence_def)

lemma demo_reasons:
  "reasonOf (Some 90) (Some 70) = Pass"
  "reasonOf (Some 40) (Some 55) = BothBelow"
  by (simp_all add: reasonOf_def belowThreshold_def CONF_THRESHOLD_def)

theorem qualification_reason_and_inclusion_witness:
  "fst (qualifyRows utcHost demoCutoff 0
          [demoRecord 44025 ''Other'' 90 ''Human Error'' 70,
           demoRecord 43960 ''Other'' 90 ''Human Error'' 70,
           demoRecord 44030 ''Other'' 40 ''Human Error'' 55] [])
     = [demoRecord 44025 ''Other'' 90 ''Human Error'' 70]
   \<and> reasonOf (Some 40) (Some 55) = BothBelow
   \<and> reasonOf (Some 90) (Some 70) = Pass
   \<and> reasonOf None (Some 70) = InvalidIssue"
proof -
  note inst = qualification_reason_and_inclusion[of "Some 40" "Some 55" utcHost demoCutoff 0
      "demoRecord 43960 ''Other'' 90 ''Human Error'' 70"
      "[demoRecord 44025 ''Other'' 90 ''Human Error'' 70,
        demoRecord 43960 ''Other'' 90 ''Human Error'' 70,
        demoRecord 44030 ''Other'' 40 ''Human Error'' 55]"]
  have a: "fst (qualifyRows utcHost demoCutoff 0
          [demoRecord 44025 ''Other'' 90 ''Human Error'' 70,
           demoRecord 43960 ''Other'' 90 ''Human Error'' 70,
           demoRecord 44030 ''Other'' 40 ''Human Error'' 55] [])
     = [demoRecord 44025 ''Other'' 90 ''Human Error'' 70]"
    using inst[THEN conjunct2, THEN conjunct2, THEN conjunct2, THEN conjunct2, THEN conjunct2,
        THEN conjunct2, THEN conjunct2, THEN conjunct2, THEN conjunct2, THEN conjunct2]
    by (simp add: qualify_reason demo_fields demo_created demo_conf demo_reasons demoCutoff_def)
  have b: "reasonOf (Some 40) (Some 55) = BothBelow"
    using inst[THEN conjunct2, THEN conjunct2, THEN conjunct2, THEN conjunct1]
    by (simp add: CONF_THRESHOLD_def)
  have c: "reasonOf (Some 90) (Some 70) = Pass"
    using qualification_reason_and_inclusion[of "Some 90" "Some 70", THEN conjunct2, THEN conjunct2,
        THEN conjunct2, THEN conjunct2, THEN conjunct2, THEN conjunct2, THEN conjunct1]
    by (simp add: CONF_THRESHOLD_def)
  have d: "reasonOf None (Some 70) = InvalidIssue"
    using qualification_reason_and_inclusion[of None "Some 70", THEN conjunct2, THEN conjunct1]
    by simp
  show ?thesis
    by (intro conjI) (rule a b c d)+
qed

text \<open>
  C9.  From a tab that exists the pipeline always returns, and its debug table
  has one row for each record, in the order of the records: row \<open>i\<close> is the
  debug row of record \<open>i\<close>, numbered \<open>i + 2\<close>, whether the record is kept or
  not.  The records are the rows of the tab below the header row.
\<close>

theorem debug_row_for_every_record:
  "\<exists>recentQualified issueSummary causeSummary debugRows.
     mainTrendPipeline h cutoff (Some rangeValues)
       = Inr (recentQualified, issueSummary, causeSummary, debugRows)
     \<and> length debugRows = length (getSheetDataAsObjects h rangeValues)
     \<and> length debugRows = length rangeValues - 1
     \<and> (\<forall>i < length debugRows.
           debugRows ! i = snd (qualify h cutoff i (getSheetDataAsObjects h rangeValues ! i))
           \<and> d_rowNo (debugRows ! i) = i + 2
           \<and> d_rawCreated (debugRows ! i) = field (getSheetDataAsObjects h rangeValues ! i) ''Created'')"
proof -
  let ?data = "getSheetDataAsObjects h rangeValues"
  obtain kept dbg where q: "qualifyRows h cutoff 0 ?data [] = (kept, dbg)"
    by (cases "qualifyRows h cutoff 0 ?data []")
  have run: "mainTrendPipeline h cutoff (Some rangeValues)
      = Inr (kept, summarizeByKey h kept ''AI Issue Type'' ''AI Issue Type Confidence'',
             summarizeByKey h kept ''AI Root Cause'' ''AI Root Cause Confidence'', dbg)"
    by (simp add: mainTrendPipeline_def Let_def q)
  from qualifyRows_debug[of h cutoff 0 ?data "[]"] q
  have dbg: "dbg = map (\<lambda>(j, row). snd (qualify h cutoff j row)) (enumerate 0 ?data)"
    by simp
  then have len: "length dbg = length ?data"
    by simp
  have rows: "\<forall>i < length dbg.
           dbg ! i = snd (qualify h cutoff i (?data ! i))
           \<and> d_rowNo (dbg ! i) = i + 2
           \<and> d_rawCreated (dbg ! i) = field (?data ! i) ''Created''"
  proof (intro allI impI)
    fix i assume "i < length dbg"
    with len have i: "i < length ?data" by simp
    then have "dbg ! i = snd (qualify h cutoff i (?data ! i))"
      by (simp add: dbg nth_enumerate_eq)
    then show "dbg ! i = snd (qualify h cutoff i (?data ! i))
           \<and> d_rowNo (dbg ! i) = i + 2
           \<and> d_rawCreated (dbg ! i) = field (?data ! i) ''Created''"
      by (simp add: qualify_rowNo qualify_rawCreated)
  qed
  have len': "length dbg = length rangeValues - 1"
    by (simp only: len length_getSheetDataAsObjects)
  from run len len' rows show ?thesis
    by blast
qed

theorem debug_row_for_every_record_witness:
  "\<exists>recentQualified issueSummary causeSummary debugRows.
     mainTrendPipeline utcHost demoCutoff (Some demoSheet)
       = Inr (recentQualified, issueSummary, causeSummary, debugRows)
     \<and> length debugRows = 3
     \<and> map d_rowNo debugRows = [2, 3, 4]
     \<and> map d_window debugRows = [Recent, Old, Recent]
     \<and> map d_reason debugRows = [Pass, Pass, BothBelow]"
proof -
  from debug_row_for_every_record[of utcHost demoCutoff demoSheet]
  obtain rq isum csum dbg where
    run: "mainTrendPipeline utcHost demoCutoff (Some demoSheet) = Inr (rq, isum, csum, dbg)"
    and len: "length dbg = length (getSheetDataAsObjects utcHost demoSheet)"
    and rows: "\<forall>i < length dbg.
           dbg ! i = snd (qualify utcHost demoCutoff i (getSheetDataAsObjects utcHost demoSheet ! i))
           \<and> d_rowNo (dbg ! i) = i + 2
           \<and> d_rawCreated (dbg ! i) = field (getSheetDataAsObjects utcHost demoSheet ! i) ''Created''"
    by blast
  from len have l3: "length dbg = 3"
    by (simp add: demo_data)
  then obtain x y z where split: "dbg = [x, y, z]"
    by (auto simp: length_Suc_conv numeral_3_eq_3)
  from rows[THEN spec, of 0] rows[THEN spec, of 1] rows[THEN spec, of 2]
  have r0: "x = snd (qualify utcHost demoCutoff 0 (demoRecord 44025 ''Other'' 90 ''Human Error'' 70))"
    and r1: "y = snd (qualify utcHost demoCutoff 1 (demoRecord 43960 ''Other'' 90 ''Human Error'' 70))"
    and r2: "z = snd (qualify utcHost demoCutoff 2 (demoRecord 44030 ''Other'' 40 ''Human Error'' 55))"
    by (simp_all add: split demo_data)
  have nos: "map d_rowNo dbg = [2, 3, 4]"
    by (simp add: split r0 r1 r2 qualify_rowNo)
  have w0: "d_window x = Recent"
    by (simp add: r0 qualify_window demo_fields demo_created demoCutoff_def)
  have w1: "d_window y = Old"
    using qualify_window[of utcHost demoCutoff 1 "demoRecord 43960 ''Other'' 90 ''Human Error'' 70"]
    by (cases "d_window y") (simp_all add: r1 demo_fields demo_created demoCutoff_def)
  have w2: "d_window z = Recent"
    by (simp add: r2 qualify_window demo_fields demo_created demoCutoff_def)
  have wins: "map d_window dbg = [Recent, Old, Recent]"
    by (simp add: split w0 w1 w2)
  have reasons: "map d_reason dbg = [Pass, Pass, BothBelow]"
    by (simp add: split r0 r1 r2 qualify_reason demo_fields demo_conf demo_reasons)
  show ?thesis
    by (intro exI conjI) (rule run l3 nos wins reasons)+
qed

section \<open>Properties of the fill engine\<close>















lemma fillRow_gpt_without_key:
  assumes "apiKey = None \<or> apiKey = Some []"
  shows "fillRow h ''gpt'' apiKey idx rnd k row = fillRow h ''mock'' apiKey' idx rnd k row"
  using assms unfolding fillRow_def by (simp cong: if_cong)

lemma fillRows_gpt_without_key:
  assumes "apiKey = None \<or> apiKey = Some []"
  shows "fillRows h ''gpt'' apiKey idx rnd k rows = fillRows h ''mock'' apiKey' idx rnd k rows"
proof (induction rows arbitrary: k)
  case Nil
  show ?case by simp
next
  case (Cons row rows)
  show ?case
    by (simp only: fillRows.simps fillRow_gpt_without_key[OF assms, of h idx rnd _ row apiKey'] Cons.IH)
qed





lemma fill_demo_mock:
  "ensureAIFieldsPopulated utcHost ''mock'' None halfSource 0 (Some fillSheet) =
     Inr ([fillHeaders,
           [JStr ''Taxonomy Update'', JNum (Fin 65), JStr ''Human Error'', JNum (Fin 70)],
           [JStr ''Taxonomy Update'', JNum (Fin 65), JStr ''Onboarding Gaps'', JNum (Fin 65)]], 6)"
  by code_simp





text \<open>
  C4 on the code.  A label cell that is absent reads as \<^verbatim>\<open>undefined\<close>, which
  is neither \<^verbatim>\<open>""\<close> nor \<^verbatim>\<open>null\<close>, so lines 192-194 skip the record.  On a
  tab without the classification columns the run adds the four headers and
  leaves the record as it was: its labels stay absent.
\<close>

theorem absent_label_is_not_filled:
  "\<not> needsFill JUndefined
   \<and> ensureAIFieldsPopulated utcHost ''mock'' None halfSource 0
        (Some [[JStr ''Created''], [JStr ''2024-01-05'']]) =
       Inr ([[JStr ''Created'', JStr ''AI Issue Type'', JStr ''AI Issue Type Confidence'',
              JStr ''AI Root Cause'', JStr ''AI Root Cause Confidence''],
             [JStr ''2024-01-05'']], 0)
   \<and> aiCell utcHost [[JStr ''Created''], [JStr ''2024-01-05'']]
        [[JStr ''Created'', JStr ''AI Issue Type'', JStr ''AI Issue Type Confidence'',
          JStr ''AI Root Cause'', JStr ''AI Root Cause Confidence''],
         [JStr ''2024-01-05'']] 1 ''AI Issue Type'' = JUndefined"
  by code_simp

text \<open>
  C8.  In gpt mode without an API key (\<^verbatim>\<open>null\<close> or the empty string) a run
  gives what a run in mock mode gives from the same tab and the same random
  source: the same array and the same number of random draws, or the same
  error.
\<close>

theorem gpt_without_key_is_mock:
  assumes "apiKey = None \<or> apiKey = Some []"
  shows "ensureAIFieldsPopulated h ''gpt'' apiKey rnd k sheet
       = ensureAIFieldsPopulated h ''mock'' apiKey' rnd k sheet"
  unfolding ensureAIFieldsPopulated_def
  by (simp only: fillRows_gpt_without_key[OF assms, of h _ rnd _ _ apiKey'])

theorem gpt_without_key_is_mock_witness:
  "ensureAIFieldsPopulated utcHost ''gpt'' (Some []) halfSource 0 (Some fillSheet) =
     Inr ([fillHeaders,
           [JStr ''Taxonomy Update'', JNum (Fin 65), JStr ''Human Error'', JNum (Fin 70)],
           [JStr ''Taxonomy Update'', JNum (Fin 65), JStr ''Onboarding Gaps'', JNum (Fin 65)]], 6)"
proof -
  have key: "Some [] = None \<or> Some [] = Some ([] :: string)"
    by simp
  from gpt_without_key_is_mock[OF key, of utcHost halfSource 0 "Some fillSheet" None]
  show ?thesis
    by (simp only: fill_demo_mock)
qed

section \<open>Properties of the aggregator\<close>

lemma insort_key_map:
  "insort_key g (f x) (map f xs) = map f (insort_key (\<lambda>y. g (f y)) x xs)"
  by (induction xs) auto

lemma sort_key_map:
  "sort_key g (map f xs) = map f (sort_key (\<lambda>y. g (f y)) xs)"
  by (induction xs) (simp_all add: insort_key_map)

lemma Object_entries_map:
  "Object_entries (map (\<lambda>k. (k, f k)) ks) = map (\<lambda>k. (k, f k)) (entryOrder ks)"
  by (simp add: Object_entries_def entryOrder_def filter_map sort_key_map comp_def)

lemma update_map_keys:
  assumes "distinct ks"
  shows "AList.update key v (map (\<lambda>k. (k, f k)) ks) =
     (if key \<in> set ks then map (\<lambda>k. (k, if k = key then v else f k)) ks
      else map (\<lambda>k. (k, f k)) ks @ [(key, v)])"
  using assms by (induction ks) auto

lemma map_of_map_keys:
  "map_of (map (\<lambda>k. (k, f k)) ks) key = (if key \<in> set ks then Some (f key) else None)"
  by (induction ks) auto

lemma discovered_Nil: "discovered h keyField [] = []"
  by (simp add: discovered_def)

lemma discovered_snoc:
  "discovered h keyField (data @ [row]) =
     (if groupKey h keyField row \<in> set objectPrototypeKeys
         \<or> groupKey h keyField row \<in> set (discovered h keyField data)
      then discovered h keyField data
      else discovered h keyField data @ [groupKey h keyField row])"
  by (simp add: discovered_def)

lemma distinct_discovered: "distinct (discovered h keyField data)"
  by (simp add: discovered_def)

lemma set_discovered:
  "set (discovered h keyField data) =
     {k \<in> groupKey h keyField ` set data. k \<notin> set objectPrototypeKeys}"
  by (auto simp: discovered_def)

lemma groupStats_snoc:
  "groupStats h keyField confidenceField (data @ [row]) k =
     (if groupKey h keyField row = k
      then \<lparr>s_count = s_count (groupStats h keyField confidenceField data k) + 1,
            s_total = s_total (groupStats h keyField confidenceField data k)
                      + confOrZero h confidenceField row\<rparr>
      else groupStats h keyField confidenceField data k)"
  by (simp add: groupStats_def Let_def)

lemma groupStats_absent:
  assumes "k \<notin> groupKey h keyField ` set data"
  shows "groupStats h keyField confidenceField data k = \<lparr>s_count = 0, s_total = 0\<rparr>"
proof -
  from assms have "filter (\<lambda>row. groupKey h keyField row = k) data = []"
    by (auto simp: filter_empty_conv)
  then show ?thesis
    by (simp add: groupStats_def)
qed

lemma foldl_addRow:
  "foldl (addRow h keyField confidenceField) [] data =
     map (\<lambda>k. (k, groupStats h keyField confidenceField data k)) (discovered h keyField data)"
proof (induction data rule: rev_induct)
  case Nil
  show ?case by (simp add: discovered_Nil)
next
  case (snoc row data)
  let ?key = "groupKey h keyField row"
  let ?ks = "discovered h keyField data"
  let ?S = "groupStats h keyField confidenceField"
  let ?m = "map (\<lambda>k. (k, ?S data k)) ?ks"
  have step: "foldl (addRow h keyField confidenceField) [] (data @ [row]) =
      addRow h keyField confidenceField ?m row"
    by (simp add: snoc.IH)
  show ?case
  proof (cases "?key \<in> set objectPrototypeKeys")
    case True
    then have "\<forall>k \<in> set ?ks. k \<noteq> ?key"
      by (auto simp: set_discovered)
    then have same: "map (\<lambda>k. (k, ?S (data @ [row]) k)) ?ks = ?m"
      by (auto simp: groupStats_snoc)
    have "addRow h keyField confidenceField ?m row = ?m"
      using True by (simp add: addRow_def Let_def)
    with True same show ?thesis
      by (simp only: step discovered_snoc if_True simp_thms)
  next
    case notproto: False
    show ?thesis
    proof (cases "?key \<in> set ?ks")
      case True
      have "AList.update ?key (?S (data @ [row]) ?key) ?m =
          map (\<lambda>k. (k, if k = ?key then ?S (data @ [row]) ?key else ?S data k)) ?ks"
        using True by (simp add: update_map_keys[OF distinct_discovered])
      also have "\<dots> = map (\<lambda>k. (k, ?S (data @ [row]) k)) ?ks"
        by (auto simp: groupStats_snoc)
      finally have upd: "AList.update ?key (?S (data @ [row]) ?key) ?m =
          map (\<lambda>k. (k, ?S (data @ [row]) k)) ?ks" .
      have "addRow h keyField confidenceField ?m row =
          AList.update ?key (?S (data @ [row]) ?key) ?m"
        using True notproto by (simp add: addRow_def Let_def map_of_map_keys groupStats_snoc)
      with upd True notproto show ?thesis
        by (simp only: step discovered_snoc if_True simp_thms)
    next
      case False
      with notproto have "?key \<notin> groupKey h keyField ` set data"
        by (auto simp: set_discovered)
      then have zero: "?S data ?key = \<lparr>s_count = 0, s_total = 0\<rparr>"
        by (rule groupStats_absent)
      have e1: "AList.update ?key (?S (data @ [row]) ?key) ?m = ?m @ [(?key, ?S (data @ [row]) ?key)]"
        using False by (simp add: update_map_keys[OF distinct_discovered])
      have e2: "?m = map (\<lambda>k. (k, ?S (data @ [row]) k)) ?ks"
        using False by (auto simp: groupStats_snoc)
      have upd: "AList.update ?key (?S (data @ [row]) ?key) ?m =
          map (\<lambda>k. (k, ?S (data @ [row]) k)) (?ks @ [?key])"
        unfolding e1 by (simp add: e2)
      have "addRow h keyField confidenceField ?m row =
          AList.update ?key (?S (data @ [row]) ?key) ?m"
        using False notproto by (simp add: addRow_def Let_def map_of_map_keys groupStats_snoc zero)
      with upd False notproto show ?thesis
        by (simp only: step discovered_snoc if_False simp_thms)
    qed
  qed
qed

lemma summarizeByKey_refines:
  "summarizeByKey h data keyField confidenceField = aggregateSpec h data keyField confidenceField"
proof -
  let ?mk = "\<lambda>e. \<lparr>g_key = fst e, g_count = s_count (snd e),
                  g_avg = toFixed1 (s_total (snd e) / of_nat (s_count (snd e)))\<rparr>"
  let ?S = "groupStats h keyField confidenceField data"
  have group: "?mk (k, ?S k) = groupOf h keyField confidenceField data k" for k
    by (simp add: groupStats_def groupOf_def Let_def)
  have "map ?mk (Object_entries (foldl (addRow h keyField confidenceField) [] data)) =
      map ?mk (map (\<lambda>k. (k, ?S k)) (entryOrder (discovered h keyField data)))"
    by (simp only: foldl_addRow Object_entries_map)
  also have "\<dots> = map (\<lambda>k. ?mk (k, ?S k)) (entryOrder (discovered h keyField data))"
    by (simp only: map_map comp_def)
  also have "\<dots> = map (groupOf h keyField confidenceField data) (entryOrder (discovered h keyField data))"
    by (simp only: group)
  finally show ?thesis
    by (simp only: summarizeByKey_def aggregateSpec_def)
qed

lemma Unknown_plain:
  "''Unknown'' \<notin> set objectPrototypeKeys" "\<not> isArrayIndex ''Unknown''"
  by (simp_all add: objectPrototypeKeys_def isArrayIndex_def is_digit_def)

lemma falsy_groupKey: "\<not> truthy (field row keyField) \<Longrightarrow> groupKey h keyField row = ''Unknown''"
  by (simp add: groupKey_def)

lemma singleton_list:
  assumes "distinct xs" and "set xs = {a}"
  shows "xs = [a]"
proof (cases xs)
  case Nil
  with assms show ?thesis by simp
next
  case (Cons x ys)
  with assms have "x = a" by auto
  moreover from Cons assms have "set ys \<subseteq> {a}" "x \<notin> set ys" by auto
  ultimately have "ys = []" by (cases ys) auto
  with Cons \<open>x = a\<close> show ?thesis by simp
qed

lemma all_falsy_summary:
  assumes "data \<noteq> []" and "\<forall>row \<in> set data. \<not> truthy (field row keyField)"
  shows "summarizeByKey h data keyField confidenceField
           = [groupOf h keyField confidenceField data ''Unknown'']
         \<and> g_count (groupOf h keyField confidenceField data ''Unknown'') = length data"
proof -
  from assms(2) have keys: "\<forall>row \<in> set data. groupKey h keyField row = ''Unknown''"
    by (simp add: falsy_groupKey)
  with assms(1) have "groupKey h keyField ` set data = {''Unknown''}"
    by (cases data) auto
  then have "set (discovered h keyField data) = {''Unknown''}"
    unfolding set_discovered using Unknown_plain(1) by auto
  then have disc: "discovered h keyField data = [''Unknown'']"
    by (rule singleton_list[OF distinct_discovered])
  have order: "entryOrder [''Unknown''] = [''Unknown'']"
    by (simp add: entryOrder_def Unknown_plain)
  have a: "summarizeByKey h data keyField confidenceField
           = [groupOf h keyField confidenceField data ''Unknown'']"
    by (simp add: summarizeByKey_refines aggregateSpec_def disc order)
  from keys have "filter (\<lambda>row. groupKey h keyField row = ''Unknown'') data = data"
    by (simp add: filter_id_conv)
  then have b: "g_count (groupOf h keyField confidenceField data ''Unknown'') = length data"
    by (simp add: groupOf_def)
  from a b show ?thesis by simp
qed

text \<open>
  C10.  Line 345 takes the label with \<^verbatim>\<open>||\<close>, so every falsy label, the number
  0 and the boolean \<^verbatim>\<open>false\<close> among them, becomes the key \<^verbatim>\<open>Unknown\<close>: the
  records of a set whose labels are all falsy form the single group
  \<^verbatim>\<open>Unknown\<close>, which counts every one of them.
\<close>

theorem falsy_label_is_Unknown:
  "(\<not> truthy (field row keyField) \<longrightarrow> groupKey h keyField row = ''Unknown'')
   \<and> (data \<noteq> [] \<and> (\<forall>row \<in> set data. \<not> truthy (field row keyField)) \<longrightarrow>
        summarizeByKey h data keyField confidenceField
          = [groupOf h keyField confidenceField data ''Unknown'']
        \<and> g_count (groupOf h keyField confidenceField data ''Unknown'') = length data)
   \<and> \<not> truthy (JNum (Fin 0))
   \<and> \<not> truthy (JBool False)
   \<and> groupKey h ''L'' (labelled (JNum (Fin 0)) conf) = ''Unknown''
   \<and> groupKey h ''L'' (labelled (JBool False) conf) = ''Unknown''"
proof -
  have a: "\<not> truthy (field row keyField) \<longrightarrow> groupKey h keyField row = ''Unknown''"
    by (simp add: falsy_groupKey)
  have b: "data \<noteq> [] \<and> (\<forall>row \<in> set data. \<not> truthy (field row keyField)) \<longrightarrow>
        summarizeByKey h data keyField confidenceField
          = [groupOf h keyField confidenceField data ''Unknown'']
        \<and> g_count (groupOf h keyField confidenceField data ''Unknown'') = length data"
    using all_falsy_summary by blast
  have c: "\<not> truthy (JNum (Fin 0))" "\<not> truthy (JBool False)"
    by simp_all
  have d: "groupKey h ''L'' (labelled (JNum (Fin 0)) conf) = ''Unknown''"
    "groupKey h ''L'' (labelled (JBool False) conf) = ''Unknown''"
    by (simp_all add: groupKey_def field_def labelled_def)
  show ?thesis
    by (intro conjI) (rule a b c d)+
qed

theorem falsy_label_is_Unknown_witness:
  "summarizeByKey utcHost
     [labelled (JNum (Fin 0)) (JNum (Fin 80)), labelled (JBool False) (JStr ''n/a'')] ''L'' ''C''
   = [\<lparr>g_key = ''Unknown'', g_count = 2, g_avg = 40\<rparr>]"
proof -
  let ?data = "[labelled (JNum (Fin 0)) (JNum (Fin 80)), labelled (JBool False) (JStr ''n/a'')]"
  have falsy: "?data \<noteq> [] \<and> (\<forall>row \<in> set ?data. \<not> truthy (field row ''L''))"
    by (simp add: field_def labelled_def)
  have group: "groupOf utcHost ''L'' ''C'' ?data ''Unknown'' = \<lparr>g_key = ''Unknown'', g_count = 2, g_avg = 40\<rparr>"
    by code_simp
  from falsy_label_is_Unknown[where h = utcHost and data = ?data and keyField = "''L''"
      and confidenceField = "''C''", THEN conjunct2, THEN conjunct1, THEN mp, OF falsy]
  show ?thesis
    by (simp only: group)
qed








end
